theory Spec2Isabelle
  imports Main "HOL-Library.Word"
begin

section \<open>Data model\<close>

text \<open>
  Go values as they appear in the source: a \<open>[]byte\<close> is a character list and a nil
  slice or nil pointer is \<open>None\<close>; an \<open>error\<close> is its message and a panic its message;
  an \<open>http.Header\<close> maps a key to its values; \<open>interface{}\<close> values are a small
  universe of dynamic values. Go's \<open>int\<close> is an \<open>int\<close> wherever the code only passes
  it on, and a 64-bit word where it is converted from or to \<open>uint\<close>.
\<close>

type_synonym bytes = string
type_synonym error = string
type_synonym panic = string
type_synonym header = "string \<rightharpoonup> string list"

text \<open>
  A file system maps a path to the file or the directory that opening the path gives.
  A value of the interface \<open>fs.FS\<close> may be nil, and \<open>fs.Sub\<close> may root a file system in
  a nil one: \<open>None\<close> is such a file system, and opening anything in it dereferences nil.
\<close>

datatype node = File bytes | Dir

type_synonym fsys = "string \<rightharpoonup> node"
type_synonym FS = "fsys option"

text \<open>
  A \<open>*bytes.Buffer\<close> is nil or a buffer, and a buffer is what its \<open>Bytes()\<close> returns: a
  nil slice or bytes.
\<close>

type_synonym buffer = "bytes option"

text \<open>
  \<open>Interface d\<close> is a variable of type \<open>interface{}\<close> that holds \<open>d\<close>: the code passes
  pointers to such variables to the template engine.
\<close>

datatype data =
    NilValue
  | Ptr data
  | Interface data
  | Struct "(string \<times> data) list"
  | Str string
  | Num int
  | Strs "string list"
  | Opaque

text \<open>What a call into a library does: it panics, returns an error, or returns a value.\<close>

datatype 'a outcome = Panics panic | Fails error | Gives 'a

record Redirect =
  Location :: string
  Code :: "64 word"

record ErrorPageDefinition =
  Name :: string
  IsDefault :: bool
  IsTemplate :: bool
  Data :: data

record ProcessingError =
  ResponseCode :: int
  PData :: data

record request =
  Method :: string
  Path :: string
  URL_String :: string
  RequestURI :: string
  Header :: header
  RemoteAddr :: string
  Context :: "int \<rightharpoonup> string"

text \<open>
  What a handler does is the sequence of its calls on the response writer and on its
  collaborators, in program order. \<open>HeaderSet k v\<close> is \<open>w.Header().Set(k, v)\<close>,
  \<open>WriteHeader c\<close> and \<open>Write b\<close> are the writer's methods; \<open>SpanStart\<close> is a span opened
  with the tracer, \<open>OtelHandler\<close> the span of an \<open>otelhttp\<close> handler; \<open>Handle\<close> is a call of
  a controller, \<open>StaticOpen\<close> the probe of the static asset store; \<open>AccessLog\<close> is the
  access-log record (ip, request id, method, status, request URI, size, user agent),
  \<open>GaugeSet\<close> and \<open>SummaryObserve\<close> the two metric observations with their labels.
  \<open>Panic\<close> ends the trace of a handler that panics.
  The result of \<open>Write\<close>, wall-clock durations, span attributes and diagnostic log lines
  are outside the model: the code consumes none of them.
\<close>

datatype event =
    HeaderSet string string
  | WriteHeader int
  | Write "bytes option"
  | SpanStart string
  | OtelHandler string
  | Handle string
  | StaticOpen string
  | AccessLog string string string int string nat string
  | GaugeSet int string string
  | SummaryObserve int string string
  | Panic panic

type_synonym handler = "request \<Rightarrow> event list"

text \<open>
  A controller's \<open>Handle\<close> returns (code, redirect URL, content type, buffer, error), or
  panics.
\<close>

type_synonym response = "int \<times> string \<times> string \<times> buffer option \<times> ProcessingError option"
type_synonym controller = "request \<Rightarrow> panic + response"

record Service =
  staticHandler :: handler
  s_templates :: FS
  routerMap :: "string \<rightharpoonup> controller option"
  redirects :: "string \<rightharpoonup> Redirect"

text \<open>
  The configuration store (viper) with the keys the code reads. Go maps are iterated in
  an unspecified order: a configured map is the list of its entries in the order of one
  iteration.
\<close>

record config =
  useEmbedded :: bool
  templatesDirectory :: string
  staticDirectory :: string
  http_includes :: "string list"
  http_controllers :: "(string \<times> string) list"
  http_redirects :: "(string \<times> (64 word option \<times> string)) list"
  http_errorPages :: "(string \<times> string) list"
  google_analytics_id :: string

text \<open>
  The package's global variables. The two embedded bundles are values of \<open>embed.FS\<close>,
  which is never nil; \<open>templates\<close> is a value of the interface \<open>fs.FS\<close>.
\<close>

record globals =
  staticFiles :: fsys
  templates :: FS
  errorPageFiles :: fsys
  ErrorPages :: "int \<rightharpoonup> ErrorPageDefinition"
  Debug :: bool
  GoogleAnayticsId :: string

text \<open>
  The libraries and the operating system the code calls: \<open>html/template\<close> (parsing the
  patterns of a file system under a name and a function map, executing a template on a
  value, which gives the bytes written to the buffer), \<open>http.FileServer\<close> on a file
  system, \<open>os.DirFS\<close>, \<open>os.Getenv\<close> and \<open>otelhttp.NewHandler\<close>.
\<close>

record 't platform =
  ParseFS :: "string \<Rightarrow> (string \<times> (string \<Rightarrow> data \<Rightarrow> bool)) list \<Rightarrow> FS \<Rightarrow> string list \<Rightarrow> 't outcome"
  Execute :: "'t \<Rightarrow> data \<Rightarrow> bytes outcome"
  FileServer :: "FS \<Rightarrow> handler"
  DirFS :: "string \<Rightarrow> fsys"
  Getenv :: "string \<Rightarrow> string"
  NewHandler :: "handler \<Rightarrow> string \<Rightarrow> handler"

section \<open>Library functions\<close>

definition nil_dereference :: panic where
  "nil_dereference = ''runtime error: invalid memory address or nil pointer dereference''"

definition HasPrefix :: "string \<Rightarrow> string \<Rightarrow> bool" where
  "HasPrefix s p = (take (length p) s = p)"

definition HasSuffix :: "string \<Rightarrow> string \<Rightarrow> bool" where
  "HasSuffix s suf = (length suf \<le> length s \<and> drop (length s - length suf) s = suf)"

definition TrimPrefix :: "string \<Rightarrow> string \<Rightarrow> string" where
  "TrimPrefix s p = (if HasPrefix s p then drop (length p) s else s)"

definition Header_Get :: "header \<Rightarrow> string \<Rightarrow> string" where
  "Header_Get h k = (case h k of None \<Rightarrow> [] | Some [] \<Rightarrow> [] | Some (v # _) \<Rightarrow> v)"

text \<open>The bytes of a fresh buffer after \<open>w\<close> was written to it: nil when nothing was.\<close>

definition Bytes :: "bytes \<Rightarrow> buffer" where
  "Bytes w = (if w = [] then None else Some w)"

text \<open>
  \<open>fs.ValidPath\<close>: the path \<open>.\<close>, or elements separated by slashes, none of them empty,
  \<open>.\<close> or \<open>..\<close>. Strings are taken to be valid UTF-8.
\<close>

fun elements :: "string \<Rightarrow> string list" where
  "elements [] = [[]]"
| "elements (c # cs) =
     (if c = CHR ''/'' then [] # elements cs
      else (case elements cs of [] \<Rightarrow> [[c]] | e # es \<Rightarrow> (c # e) # es))"

definition ValidPath :: "string \<Rightarrow> bool" where
  "ValidPath name =
     (name = ''.'' \<or> list_all (\<lambda>elem. elem \<noteq> [] \<and> elem \<noteq> ''.'' \<and> elem \<noteq> ''..'') (elements name))"

text \<open>
  \<open>fs.Sub\<close>: nil and an error for a directory that is not a valid path; the file system
  itself for \<open>.\<close>; else the file system whose valid names are those of the directory.
\<close>

definition Sub :: "FS \<Rightarrow> string \<Rightarrow> FS \<times> error option" where
  "Sub fsys dir =
     (if \<not> ValidPath dir then (None, Some (''sub '' @ dir @ '': invalid argument''))
      else if dir = ''.'' then (fsys, None)
      else (case fsys of
              None \<Rightarrow> (None, None)
            | Some f \<Rightarrow>
                (Some (\<lambda>name. if \<not> ValidPath name then None
                              else if name = ''.'' then f dir
                              else f (dir @ ''/'' @ name)), None)))"

text \<open>\<open>ReadFile\<close> of an embedded bundle.\<close>

definition ReadFile :: "fsys \<Rightarrow> string \<Rightarrow> bytes option \<times> error option" where
  "ReadFile f name =
     (case f name of
        None \<Rightarrow> (None, Some (''open '' @ name @ '': file does not exist''))
      | Some Dir \<Rightarrow> (None, Some (''read '' @ name @ '': is a directory''))
      | Some (File b) \<Rightarrow> (Some b, None))"

text \<open>
  \<open>http.FS(fsys).Open(name)\<close>: whether the file or directory opens. The name \<open>/\<close> is the
  root, and one leading slash of any other name is dropped.
\<close>

definition http_FS_Open :: "FS \<Rightarrow> string \<Rightarrow> panic + bool" where
  "http_FS_Open fsys name =
     (case fsys of
        None \<Rightarrow> Inl nil_dereference
      | Some f \<Rightarrow> Inr (f (if name = ''/'' then ''.'' else TrimPrefix name ''/'') \<noteq> None))"

text \<open>\<open>model.IsSet\<close>: whether the value, or what it points to, is a struct with the field.\<close>

definition IsSet :: "string \<Rightarrow> data \<Rightarrow> bool" where
  "IsSet name d =
     (let v = (case d of Ptr e \<Rightarrow> e | _ \<Rightarrow> d)
      in case v of Struct flds \<Rightarrow> name \<in> fst ` set flds | _ \<Rightarrow> False)"

section \<open>The error-page resolver\<close>

text \<open>The result is the pair the function returns, or the panic that leaves it.\<close>

definition GetErrorPageContent ::
  "'t platform \<Rightarrow> config \<Rightarrow> globals \<Rightarrow> ProcessingError \<Rightarrow>
   panic + (bytes option \<times> error option)" where
  "GetErrorPageContent lib cfg g pe =
     (case ErrorPages g (ResponseCode pe) of
        Some errorDefinition \<Rightarrow>
          if IsTemplate errorDefinition then
            (let fsRoot = (if useEmbedded cfg
                           then fst (Sub (templates g) (templatesDirectory cfg))
                           else templates g);
                 patterns = [Name errorDefinition] @ http_includes cfg
             in case ParseFS lib (Name errorDefinition) [(''isset'', IsSet)] fsRoot patterns of
                  Panics p \<Rightarrow> Inl p
                | Fails err \<Rightarrow> Inr (None, Some err)
                | Gives t \<Rightarrow>
                    (case Execute lib t (Ptr (Interface (PData pe))) of
                       Panics p \<Rightarrow> Inl p
                     | Fails err \<Rightarrow> Inr (None, Some err)
                     | Gives buf \<Rightarrow> Inr (Bytes buf, None)))
          else if IsDefault errorDefinition then
            Inr (ReadFile (errorPageFiles g) (''errorPages/'' @ Name errorDefinition))
          else Inr (ReadFile (staticFiles g) (Name errorDefinition))
      | None \<Rightarrow> Inr (None, None))"

definition staticFileExists :: "'t platform \<Rightarrow> config \<Rightarrow> globals \<Rightarrow> string \<Rightarrow> panic + bool" where
  "staticFileExists lib cfg g fileName =
     (let fsRoot = fst (Sub (Some (staticFiles g)) (staticDirectory cfg));
          fsRoot = (if \<not> useEmbedded cfg then Some (DirFS lib (staticDirectory cfg)) else fsRoot)
      in http_FS_Open fsRoot fileName)"

section \<open>The dispatcher\<close>

text \<open>
  The route of a path is nil when the controller table has no entry for it or a nil
  entry. A panic of the probe, of the resolver or of the controller ends the trace where
  it happens. A controller that returns neither an error nor a buffer makes the
  dispatcher read the bytes of a nil buffer, which panics after the status and the
  content type.
\<close>

definition ServeHTTP :: "'t platform \<Rightarrow> config \<Rightarrow> globals \<Rightarrow> Service \<Rightarrow> handler" where
  "ServeHTTP lib cfg g s r =
     SpanStart ''/beta'' #
     (let path = TrimPrefix (Path r) ''/'' in
      case redirects s path of
        Some redirect \<Rightarrow>
          [HeaderSet ''Location'' (Location redirect), WriteHeader (sint (Code redirect))]
      | None \<Rightarrow>
          (case (case routerMap s path of None \<Rightarrow> None | Some route \<Rightarrow> route) of
             None \<Rightarrow>
               StaticOpen path #
               (case staticFileExists lib cfg g path of
                  Inl p \<Rightarrow> [Panic p]
                | Inr True \<Rightarrow> staticHandler s r
                | Inr False \<Rightarrow>
                    (case GetErrorPageContent lib cfg g
                            \<lparr>ResponseCode = 404, PData = NilValue\<rparr> of
                       Inl p \<Rightarrow> [Panic p]
                     | Inr (b, err) \<Rightarrow>
                         [WriteHeader 404, HeaderSet ''Content-Type'' ''text/html'', Write b]))
           | Some route \<Rightarrow>
               Handle path #
               (case route r of
                  Inl p \<Rightarrow> [Panic p]
                | Inr (code, redirectUrl, contentType, b, Some controllerError) \<Rightarrow>
                    (let contentType = (if contentType = [] then ''text/html'' else contentType)
                     in [WriteHeader (ResponseCode controllerError),
                         HeaderSet ''Content-Type'' contentType] @
                        (case b of
                           None \<Rightarrow>
                             (case GetErrorPageContent lib cfg g controllerError of
                                Inl p \<Rightarrow> [Panic p]
                              | Inr (errorPageContent, err) \<Rightarrow> [Write errorPageContent])
                         | Some buf \<Rightarrow> [Write buf]))
                | Inr (code, redirectUrl, contentType, b, None) \<Rightarrow>
                    if code = 301 \<or> code = 302 \<or> code = 303 \<or> code = 307 \<or> code = 308 then
                      [HeaderSet ''Location''
                         (if redirectUrl \<noteq> [] then redirectUrl else URL_String r),
                       WriteHeader code]
                    else [WriteHeader code, HeaderSet ''Content-Type'' contentType] @
                         (case b of
                            None \<Rightarrow> [Panic nil_dereference]
                          | Some buf \<Rightarrow> [Write buf]))))"

section \<open>The render contract and the model controller\<close>

record Model =
  m_Path :: string
  TemplatesDirectory :: FS
  Template :: string
  Includes :: "string list"
  m_ResponseCode :: int
  ContentType :: string
  GoogleAnalyticsId :: string

definition Render :: "'t platform \<Rightarrow> Model \<Rightarrow> bool \<Rightarrow> data \<Rightarrow> panic + response" where
  "Render lib m debug d =
     (let patterns = [Template m] @ Includes m
      in case ParseFS lib (Template m) [(''isset'', IsSet)] (TemplatesDirectory m) patterns of
           Panics p \<Rightarrow> Inl p
         | Fails err \<Rightarrow> Inr (0, [], [], None, Some \<lparr>ResponseCode = 500, PData = NilValue\<rparr>)
         | Gives t \<Rightarrow>
             (case Execute lib t (Ptr (Interface d)) of
                Panics p \<Rightarrow> Inl p
              | Fails err \<Rightarrow>
                  Inr (0, [], [], None, Some \<lparr>ResponseCode = 500, PData = NilValue\<rparr>)
              | Gives buf \<Rightarrow>
                  (let code = m_ResponseCode m;
                       code = (if code = 0 then 200 else code);
                       contentType = ContentType m;
                       contentType = (if ContentType m = [] then ''text/html'' else contentType)
                   in Inr (code, [], contentType, Some (Bytes buf), None))))"

text \<open>
  The model controller renders with itself as the template's value: a struct whose
  fields, the promoted ones of the embedded model included, are those of \<open>Model\<close>.
\<close>

definition data_of_Model :: "Model \<Rightarrow> data" where
  "data_of_Model m =
     Struct [(''Model'', Opaque), (''Path'', Str (m_Path m)), (''TemplatesDirectory'', Opaque),
             (''Template'', Str (Template m)), (''Includes'', Strs (Includes m)),
             (''ResponseCode'', Num (m_ResponseCode m)), (''ContentType'', Str (ContentType m)),
             (''GoogleAnalyticsId'', Str (GoogleAnalyticsId m))]"

definition Model_Handle :: "'t platform \<Rightarrow> bool \<Rightarrow> Model \<Rightarrow> controller" where
  "Model_Handle lib debug m r = Render lib m debug (data_of_Model m)"

section \<open>Building the tables at startup\<close>

text \<open>\<open>strconv.Atoi\<close>: an optional sign and decimal digits, within the range of \<open>int\<close>.\<close>

fun digits_val :: "int \<Rightarrow> string \<Rightarrow> int option" where
  "digits_val acc [] = Some acc"
| "digits_val acc (c # cs) =
     (if 48 \<le> (of_char c :: int) \<and> (of_char c :: int) \<le> 57
      then digits_val (acc * 10 + (of_char c - 48)) cs else None)"

definition Atoi :: "string \<Rightarrow> int option" where
  "Atoi s =
     (let (neg, ds) = (case s of
                         [] \<Rightarrow> (False, s)
                       | c # cs \<Rightarrow> if c = CHR ''-'' then (True, cs)
                                   else if c = CHR ''+'' then (False, cs) else (False, s))
      in if ds = [] then None
         else case digits_val 0 ds of
                None \<Rightarrow> None
              | Some n \<Rightarrow>
                  (let v = (if neg then - n else n)
                   in if - (2 ^ 63) \<le> v \<and> v < 2 ^ 63 then Some v else None))"

text \<open>The error-page table as \<open>CreateService\<close> initialises it.\<close>

definition default_page :: "string \<Rightarrow> ErrorPageDefinition" where
  "default_page n = \<lparr>Name = n, IsDefault = True, IsTemplate = False, Data = NilValue\<rparr>"

definition CreateService_ErrorPages :: "int \<rightharpoonup> ErrorPageDefinition" where
  "CreateService_ErrorPages =
     [400 \<mapsto> default_page ''400.html'', 401 \<mapsto> default_page ''401.html'',
      403 \<mapsto> default_page ''403.html'', 404 \<mapsto> default_page ''404.html'',
      405 \<mapsto> default_page ''405.html'', 500 \<mapsto> default_page ''500.html'']"

text \<open>
  The three loops of \<open>requestHandler\<close> over the configured maps. The configured code
  of a redirect is an \<open>int\<close>, kept as its 64 bits: the conversion to \<open>uint\<close> leaves them
  as they are.
\<close>

fun controllers_loop ::
  "'t platform \<Rightarrow> bool \<Rightarrow> FS \<Rightarrow> string list \<Rightarrow> string \<Rightarrow> (string \<times> string) list \<Rightarrow>
   (string \<rightharpoonup> controller option) \<Rightarrow> (string \<rightharpoonup> controller option)" where
  "controllers_loop lib debug fsRoot incl ga [] rm = rm"
| "controllers_loop lib debug fsRoot incl ga ((key, val) # rest) rm =
     controllers_loop lib debug fsRoot incl ga rest
       (rm(key \<mapsto> Some (Model_Handle lib debug
                           \<lparr>m_Path = key, TemplatesDirectory = fsRoot, Template = val,
                            Includes = incl, m_ResponseCode = 0, ContentType = [],
                            GoogleAnalyticsId = ga\<rparr>)))"

fun redirects_loop ::
  "'t platform \<Rightarrow> (string \<times> (64 word option \<times> string)) list \<Rightarrow>
   (string \<rightharpoonup> Redirect) \<Rightarrow> (string \<rightharpoonup> Redirect)" where
  "redirects_loop lib [] rs = rs"
| "redirects_loop lib ((key, (c, loc)) # rest) rs =
     (let code = (case c of None \<Rightarrow> 301 | Some v \<Rightarrow> v);
          location = (if HasPrefix loc ''env.'' then Getenv lib (TrimPrefix loc ''env.'')
                      else loc)
      in redirects_loop lib rest (rs(key \<mapsto> \<lparr>Location = location, Code = code\<rparr>)))"

fun errorPages_loop ::
  "(string \<times> string) list \<Rightarrow> (int \<rightharpoonup> ErrorPageDefinition) \<Rightarrow>
   error + (int \<rightharpoonup> ErrorPageDefinition)" where
  "errorPages_loop [] eps = Inr eps"
| "errorPages_loop ((key, name) # rest) eps =
     (case Atoi key of
        None \<Rightarrow> Inl (''unexpected error code '' @ key @ '' in error pages definition'')
      | Some code \<Rightarrow>
          (case eps code of
             Some m \<Rightarrow>
               errorPages_loop rest
                 (eps(code \<mapsto> m\<lparr>IsDefault := False, Name := name,
                                 IsTemplate := HasSuffix name ''.gohtml''\<rparr>))
           | None \<Rightarrow>
               errorPages_loop rest
                 (eps(code \<mapsto> \<lparr>Name = name, IsDefault = False,
                                IsTemplate = HasSuffix name ''.gohtml'', Data = NilValue\<rparr>))))"

text \<open>
  \<open>requestHandler\<close> returns the service and the globals it has updated, or the fatal
  error with which the process exits. The errors of \<open>fs.Sub\<close> are discarded.
\<close>

definition requestHandler ::
  "'t platform \<Rightarrow> config \<Rightarrow> globals \<Rightarrow>
   ((string \<rightharpoonup> controller option) \<Rightarrow> (string \<rightharpoonup> controller option)) \<Rightarrow>
   error + (Service \<times> globals)" where
  "requestHandler lib cfg g customise =
     (let g1 = (if useEmbedded cfg then g
                else g\<lparr>templates := Some (DirFS lib (templatesDirectory cfg))\<rparr>);
          fsRoot = (if useEmbedded cfg then fst (Sub (templates g) (templatesDirectory cfg))
                    else templates g1);
          rm = controllers_loop lib (Debug g) fsRoot (http_includes cfg) (GoogleAnayticsId g)
                 (http_controllers cfg) Map.empty;
          rm = customise rm;
          fsRoot = fst (Sub (Some (staticFiles g)) (staticDirectory cfg));
          sh = (if useEmbedded cfg then FileServer lib fsRoot
                else FileServer lib (Some (DirFS lib (staticDirectory cfg))));
          rs = redirects_loop lib (http_redirects cfg) Map.empty
      in case errorPages_loop (http_errorPages cfg) (ErrorPages g1) of
           Inl err \<Rightarrow> Inl err
         | Inr eps \<Rightarrow>
             Inr (\<lparr>staticHandler = sh, s_templates = templates g1, routerMap = rm,
                   redirects = rs\<rparr>,
                  g1\<lparr>ErrorPages := eps\<rparr>))"

section \<open>The middleware chain\<close>

definition requestIDKey :: int where
  "requestIDKey = 0"

record loggingResponseWriter =
  statusCode :: int
  size :: nat

definition NewLoggingResponseWriter :: loggingResponseWriter where
  "NewLoggingResponseWriter = \<lparr>statusCode = 200, size = 0\<rparr>"

text \<open>
  The wrapper's \<open>WriteHeader\<close> and \<open>Write\<close> update its fields and pass the call on to the
  writer it wraps; every other call goes to the wrapped writer as it is. The access-log
  wrapper defers its record after the inner handler has returned: a panic of the inner
  handler passes through it and nothing is recorded.
\<close>

fun lrw_call :: "loggingResponseWriter \<Rightarrow> event \<Rightarrow> loggingResponseWriter" where
  "lrw_call lrw (WriteHeader code) = lrw\<lparr>statusCode := code\<rparr>"
| "lrw_call lrw (Write body) =
     (case body of None \<Rightarrow> lrw | Some b \<Rightarrow> lrw\<lparr>size := length b\<rparr>)"
| "lrw_call lrw _ = lrw"

fun is_Panic :: "event \<Rightarrow> bool" where
  "is_Panic (Panic msg) = True"
| "is_Panic _ = False"

definition LastIndexByte :: "string \<Rightarrow> char \<Rightarrow> int" where
  "LastIndexByte s c =
     (if c \<in> set s then int (length s) - 1 - int (length (takeWhile (\<lambda>x. x \<noteq> c) (rev s)))
      else - 1)"

definition Logging :: "handler \<Rightarrow> handler" where
  "Logging next r =
     (let evs = next r;
          lrw = foldl lrw_call NewLoggingResponseWriter evs;
          requestID = (case Context r requestIDKey of Some v \<Rightarrow> v | None \<Rightarrow> ''unknown'');
          ip = Header_Get (Header r) ''X-Forwarded-For'';
          ip = (if ip = [] then
                  (if CHR '':'' \<in> set (RemoteAddr r)
                   then take (nat (LastIndexByte (RemoteAddr r) CHR '':'')) (RemoteAddr r)
                   else RemoteAddr r)
                else ip)
      in if list_ex is_Panic evs then evs
         else evs @
         (if Path r \<noteq> ''/ready'' \<and> Path r \<noteq> ''/healthz'' \<and> Path r \<noteq> ''/metrics'' then
            [AccessLog ip requestID (Method r) (statusCode lrw) (RequestURI r) (size lrw)
               (Header_Get (Header r) ''User-Agent''),
             GaugeSet (statusCode lrw) (Method r) (Path r),
             SummaryObserve (statusCode lrw) (Method r) (Path r)]
          else []))"

definition Tracing :: "'t platform \<Rightarrow> (unit \<Rightarrow> string) \<Rightarrow> handler \<Rightarrow> handler" where
  "Tracing lib nextRequestID next r =
     (let requestID = Header_Get (Header r) ''X-Request-Id'';
          requestID = (if requestID = [] then nextRequestID () else requestID);
          ctx = (Context r)(requestIDKey \<mapsto> requestID)
      in HeaderSet ''X-Request-Id'' requestID #
         (if Method r \<noteq> ''OPTIONS'' \<and> Method r \<noteq> ''HEAD'' \<and> Path r \<noteq> ''/healthz'' \<and>
             Path r \<noteq> ''/ready'' \<and> Path r \<noteq> ''/metrics''
          then NewHandler lib next (Method r @ '' '' @ Path r) (r\<lparr>Context := ctx\<rparr>)
          else next r))"

text \<open>
  \<open>CreateService\<close> sets the globals, builds the service and mounts the chain: tracing
  around access logging around the dispatcher.
\<close>

definition CreateService ::
  "'t platform \<Rightarrow> config \<Rightarrow> globals \<Rightarrow> fsys \<Rightarrow> fsys \<Rightarrow>
   ((string \<rightharpoonup> controller option) \<Rightarrow> (string \<rightharpoonup> controller option)) \<Rightarrow>
   (unit \<Rightarrow> string) \<Rightarrow> error + (handler \<times> globals)" where
  "CreateService lib cfg g sf t customize nextRequestID =
     (let g0 = g\<lparr>staticFiles := sf, templates := Some t,
                  GoogleAnayticsId := google_analytics_id cfg,
                  ErrorPages := CreateService_ErrorPages\<rparr>
      in case requestHandler lib cfg g0 customize of
           Inl err \<Rightarrow> Inl err
         | Inr (s, g1) \<Rightarrow>
             Inr (Tracing lib nextRequestID (Logging (ServeHTTP lib cfg g1 s)), g1))"

section \<open>Reading a trace\<close>

text \<open>The position of the first event of a kind, and the kinds the properties speak of.\<close>

fun first_index :: "('a \<Rightarrow> bool) \<Rightarrow> 'a list \<Rightarrow> nat option" where
  "first_index P [] = None"
| "first_index P (x # xs) = (if P x then Some 0 else map_option Suc (first_index P xs))"

fun is_WriteHeader :: "event \<Rightarrow> bool" where
  "is_WriteHeader (WriteHeader c) = True"
| "is_WriteHeader _ = False"

fun sets_Content_Type :: "event \<Rightarrow> bool" where
  "sets_Content_Type (HeaderSet k v) = (k = ''Content-Type'')"
| "sets_Content_Type _ = False"

text \<open>The number of body bytes a trace writes to the response.\<close>

definition bytes_written :: "event list \<Rightarrow> nat" where
  "bytes_written evs =
     sum_list (map (\<lambda>e. case e of Write (Some b) \<Rightarrow> length b | _ \<Rightarrow> 0) evs)"

text \<open>
  The header a response carries, by the contract of \<open>http.ResponseWriter\<close>: changing the
  header map after a call to \<open>WriteHeader\<close> or \<open>Write\<close> has no effect, unless the status
  was informational (1xx). So the response carries the header map as it is, starting
  from \<open>h\<close>, at the first \<open>WriteHeader\<close> with another status or the first \<open>Write\<close>, or at
  the end of a trace with neither. Trailers are not modelled.
\<close>

fun sent_header :: "header \<Rightarrow> event list \<Rightarrow> header" where
  "sent_header h [] = h"
| "sent_header h (HeaderSet k v # es) = sent_header (h(k \<mapsto> [v])) es"
| "sent_header h (WriteHeader c # es) = (if 100 \<le> c \<and> c \<le> 199 then sent_header h es else h)"
| "sent_header h (Write b # es) = h"
| "sent_header h (e # es) = sent_header h es"

section \<open>The branches of error-page resolution, as the specification names them\<close>

text \<open>
  Template render: compile the named template with the configured includes and the
  field-presence helper against the template root, execute it on the data of the
  processing error, and return the bytes or the failure.
\<close>

definition render_error_template ::
  "'t platform \<Rightarrow> config \<Rightarrow> globals \<Rightarrow> string \<Rightarrow> ProcessingError \<Rightarrow>
   panic + (bytes option \<times> error option)" where
  "render_error_template lib cfg g name pe =
     (case ParseFS lib name [(''isset'', IsSet)]
             (if useEmbedded cfg then fst (Sub (templates g) (templatesDirectory cfg))
              else templates g)
             (name # http_includes cfg) of
        Panics p \<Rightarrow> Inl p
      | Fails err \<Rightarrow> Inr (None, Some err)
      | Gives t \<Rightarrow> (case Execute lib t (Ptr (Interface (PData pe))) of
                      Panics p \<Rightarrow> Inl p
                    | Fails err \<Rightarrow> Inr (None, Some err)
                    | Gives buf \<Rightarrow> Inr (Bytes buf, None)))"

text \<open>An entry of the error-page table that is the operator's override with a file name.\<close>

definition overrides :: "string \<Rightarrow> ErrorPageDefinition \<Rightarrow> bool" where
  "overrides n d = (Name d = n \<and> \<not> IsDefault d \<and> IsTemplate d = HasSuffix n ''.gohtml'')"

section \<open>A concrete server\<close>

text \<open>
  A template engine whose templates render to their own source and that dereferences a
  nil file system, a file server that answers with the file, an \<open>otelhttp\<close> handler whose
  writer sends status 200 before a first \<open>Write\<close> without one, an embedded bundle of one
  static file and three templates, one configured controller, one redirect and one
  error-page override.
\<close>

fun respWriterWrapper :: "bool \<Rightarrow> event list \<Rightarrow> event list" where
  "respWriterWrapper wrote [] = []"
| "respWriterWrapper wrote (WriteHeader c # es) = WriteHeader c # respWriterWrapper True es"
| "respWriterWrapper wrote (Write b # es) =
     (if wrote then [] else [WriteHeader 200]) @ Write b # respWriterWrapper True es"
| "respWriterWrapper wrote (e # es) = e # respWriterWrapper wrote es"

definition ex_lib :: "string platform" where
  "ex_lib =
     \<lparr>ParseFS = (\<lambda>name funcs fsys patterns.
                   case fsys of
                     None \<Rightarrow> Panics nil_dereference
                   | Some f \<Rightarrow> (case f name of
                                  Some (File src) \<Rightarrow> Gives src
                                | _ \<Rightarrow> Fails ''template: pattern matches no files'')),
      Execute = (\<lambda>t d. if t = ''{{fail}}'' then Fails ''template: execution failed''
                       else Gives t),
      FileServer = (\<lambda>fsys r.
                      case fsys of
                        None \<Rightarrow> [Panic nil_dereference]
                      | Some f \<Rightarrow> (case f (TrimPrefix (Path r) ''/'') of
                                     Some (File b) \<Rightarrow> [WriteHeader 200, Write (Some b)]
                                   | _ \<Rightarrow> [WriteHeader 404, Write (Some ''404 page not found'')])),
      DirFS = (\<lambda>dir. if dir = ''static''
                     then [''.'' \<mapsto> Dir, ''custom404.html'' \<mapsto> File ''<h1>Gone</h1>'']
                     else Map.empty),
      Getenv = (\<lambda>k. []),
      NewHandler = (\<lambda>next name r. OtelHandler name # respWriterWrapper False (next r))\<rparr>"

definition ex_cfg :: config where
  "ex_cfg =
     \<lparr>useEmbedded = True, templatesDirectory = ''templates'', staticDirectory = ''static'',
      http_includes = [], http_controllers = [(''about'', ''about.gohtml'')],
      http_redirects = [(''old-page'', (Some 302, ''/new-page''))],
      http_errorPages = [(''400'', ''400.gohtml'')], google_analytics_id = []\<rparr>"

definition ex_globals :: globals where
  "ex_globals =
     \<lparr>staticFiles = [''.'' \<mapsto> Dir, ''static'' \<mapsto> Dir, ''static/logo.png'' \<mapsto> File ''PNG''],
      templates = Some [''templates/about.gohtml'' \<mapsto> File ''<h1>About</h1>'',
                        ''templates/400.gohtml'' \<mapsto> File ''<h1>Bad request</h1>'',
                        ''templates/broken.gohtml'' \<mapsto> File ''{{fail}}''],
      errorPageFiles = [''errorPages/400.html'' \<mapsto> File ''<h1>Bad</h1>'',
                        ''errorPages/404.html'' \<mapsto> File ''<h1>Not found</h1>''],
      ErrorPages = CreateService_ErrorPages, Debug = False, GoogleAnayticsId = []\<rparr>"

definition ex_request :: "string \<Rightarrow> string \<Rightarrow> request" where
  "ex_request m p =
     \<lparr>Method = m, Path = p, URL_String = p, RequestURI = p, Header = Map.empty,
      RemoteAddr = ''10.0.0.1:4711'', Context = Map.empty\<rparr>"

definition ex_service :: Service where
  "ex_service =
     \<lparr>staticHandler = FileServer ex_lib (fst (Sub (Some (staticFiles ex_globals)) ''static'')),
      s_templates = templates ex_globals,
      routerMap =
        [''form'' \<mapsto> Some (\<lambda>r. Inr (0, [], [], None,
                                     Some \<lparr>ResponseCode = 400, PData = NilValue\<rparr>)),
         ''page'' \<mapsto> Some (\<lambda>r. Inr (200, [], ''text/plain'', Some (Some ''hello''), None)),
         ''api'' \<mapsto> Some (\<lambda>r. Inr (0, [], ''application/json'', Some (Some ''{}''),
                                    Some \<lparr>ResponseCode = 422, PData = NilValue\<rparr>))],
      redirects = [''old-page'' \<mapsto> \<lparr>Location = ''/new-page'', Code = 302\<rparr>]\<rparr>"

text \<open>A model whose template root is the directory \<open>dir\<close> of the embedded templates.\<close>

definition ex_model :: "string \<Rightarrow> string \<Rightarrow> Model" where
  "ex_model dir t =
     \<lparr>m_Path = ''about'', TemplatesDirectory = fst (Sub (templates ex_globals) dir),
      Template = t, Includes = [], m_ResponseCode = 0, ContentType = [],
      GoogleAnalyticsId = []\<rparr>"

text \<open>
  Two keys that denote the same status code, and a server whose static content is on
  disk with an override for code 404.
\<close>

definition ex_cfg_dup :: config where
  "ex_cfg_dup = ex_cfg\<lparr>http_errorPages := [(''404'', ''a.html''), (''+404'', ''b.html'')]\<rparr>"

definition ex_cfg_disk :: config where
  "ex_cfg_disk =
     ex_cfg\<lparr>useEmbedded := False, http_errorPages := [(''404'', ''custom404.html'')]\<rparr>"

section \<open>Properties of the dispatcher\<close>

text \<open>
  The status of a configured redirect is \<open>int(redirect.Code)\<close>, the 64 bits of the code
  read as a signed number: the code itself for every code below \<open>2 ^ 63\<close>.
\<close>

lemma sint_Code: "(w :: 64 word) < 2 ^ 63 \<Longrightarrow> sint w = uint w"
proof -
  assume "w < 2 ^ 63"
  then have "uint w < 2 ^ 63"
    by (simp add: word_less_def)
  moreover have "- (2 ^ 63) \<le> uint w"
    by (rule order_trans [of _ 0]) simp_all
  ultimately have "signed_take_bit 63 (uint w) = uint w"
    by (rule signed_take_bit_int_eq_self [rotated])
  then show ?thesis
    by (simp add: sint_uint)
qed

text \<open>
  C1. A request whose normalized path (the URL path without its leading slash) has an
  entry in the redirect table is answered with the \<open>Location\<close> header of the entry and
  then the status code of the entry, and with nothing else: after the span of the
  dispatcher, the whole trace is these two calls on the writer, so no controller is
  called and the static asset store is not probed, whatever the controller table, the
  static handler and the file systems are.
\<close>

theorem ServeHTTP_redirect:
  assumes "redirects s (TrimPrefix (Path r) ''/'') = Some rd"
  shows "ServeHTTP lib cfg g s r =
           [SpanStart ''/beta'', HeaderSet ''Location'' (Location rd),
            WriteHeader (sint (Code rd))] \<and>
         (Code rd < 2 ^ 63 \<longrightarrow> sint (Code rd) = uint (Code rd))"
  using assms by (simp add: ServeHTTP_def sint_Code)

theorem ServeHTTP_redirect_witness:
  "ServeHTTP ex_lib ex_cfg ex_globals ex_service (ex_request ''GET'' ''/old-page'') =
     [SpanStart ''/beta'', HeaderSet ''Location'' ''/new-page'', WriteHeader 302]"
  using ServeHTTP_redirect [of ex_service "ex_request ''GET'' ''/old-page''"
      "\<lparr>Location = ''/new-page'', Code = 302\<rparr>" ex_lib ex_cfg ex_globals]
  by (simp add: ex_service_def ex_request_def TrimPrefix_def HasPrefix_def)

text \<open>
  A request whose normalized path is in neither the redirect table nor the controller
  table: the dispatcher probes the static asset store; when the asset opens, the rest of
  the trace is the static file server's; when it does not, the dispatcher resolves the
  error page for 404 and then calls \<open>WriteHeader(404)\<close>, sets \<open>Content-Type\<close> and writes
  the resolved bytes. The header set after \<open>WriteHeader\<close> does not reach the response:
  the header the response carries is the one the dispatcher was entered with.
\<close>

lemma ServeHTTP_static_calls:
  assumes "redirects s (TrimPrefix (Path r) ''/'') = None"
    and "routerMap s (TrimPrefix (Path r) ''/'') = None"
  shows "ServeHTTP lib cfg g s r =
           SpanStart ''/beta'' # StaticOpen (TrimPrefix (Path r) ''/'') #
           (case staticFileExists lib cfg g (TrimPrefix (Path r) ''/'') of
              Inl p \<Rightarrow> [Panic p]
            | Inr True \<Rightarrow> staticHandler s r
            | Inr False \<Rightarrow>
                (case GetErrorPageContent lib cfg g \<lparr>ResponseCode = 404, PData = NilValue\<rparr> of
                   Inl p \<Rightarrow> [Panic p]
                 | Inr res \<Rightarrow>
                     [WriteHeader 404, HeaderSet ''Content-Type'' ''text/html'',
                      Write (fst res)]))"
  using assms by (simp add: ServeHTTP_def split: prod.splits sum.splits bool.splits)

lemma ServeHTTP_static_miss_header:
  assumes "redirects s (TrimPrefix (Path r) ''/'') = None"
    and "routerMap s (TrimPrefix (Path r) ''/'') = None"
    and "staticFileExists lib cfg g (TrimPrefix (Path r) ''/'') = Inr False"
  shows "sent_header h (ServeHTTP lib cfg g s r) = h"
  using assms by (simp add: ServeHTTP_def split: prod.splits sum.splits)


text \<open>
  When the routed controller returns a processing error, the dispatcher calls
  \<open>WriteHeader\<close> with the code of the error, sets \<open>Content-Type\<close> to the controller's
  content type or to \<open>text/html\<close>, and writes the controller's buffer or, without one,
  the bytes the resolver returns for the error. Here too the header set after
  \<open>WriteHeader\<close> does not reach the response.
\<close>

lemma ServeHTTP_controller_error_calls:
  assumes "redirects s (TrimPrefix (Path r) ''/'') = None"
    and "routerMap s (TrimPrefix (Path r) ''/'') = Some (Some route)"
    and "route r = Inr (code, redirectUrl, contentType, b, Some pe)"
  shows "ServeHTTP lib cfg g s r =
           [SpanStart ''/beta'', Handle (TrimPrefix (Path r) ''/''),
            WriteHeader (ResponseCode pe),
            HeaderSet ''Content-Type'' (if contentType = [] then ''text/html'' else contentType)] @
           (case b of
              Some buf \<Rightarrow> [Write buf]
            | None \<Rightarrow> (case GetErrorPageContent lib cfg g pe of
                         Inl p \<Rightarrow> [Panic p]
                       | Inr res \<Rightarrow> [Write (fst res)]))"
  using assms by (simp add: ServeHTTP_def split: option.splits sum.splits prod.splits)

lemma ServeHTTP_controller_error_header:
  assumes "redirects s (TrimPrefix (Path r) ''/'') = None"
    and "routerMap s (TrimPrefix (Path r) ''/'') = Some (Some route)"
    and "route r = Inr (code, redirectUrl, contentType, b, Some pe)"
    and "ResponseCode pe < 100 \<or> 199 < ResponseCode pe"
  shows "sent_header h (ServeHTTP lib cfg g s r) = h"
  using assms by (auto simp add: ServeHTTP_def)

text \<open>
  C5. The response to a controller's processing error does not carry the content type
  the controller supplied: the controller of \<open>/api\<close> returns the error 422 with the
  content type \<open>application/json\<close> and a body; the dispatcher calls \<open>WriteHeader(422)\<close>
  before it sets \<open>Content-Type\<close>, and the header the response carries has no
  \<open>Content-Type\<close>. The status and the body are as the claim says.
\<close>

theorem ServeHTTP_controller_error_Content_Type:
  "ServeHTTP ex_lib ex_cfg ex_globals ex_service (ex_request ''GET'' ''/api'') =
     [SpanStart ''/beta'', Handle ''api'', WriteHeader 422,
      HeaderSet ''Content-Type'' ''application/json'', Write (Some ''{}'')] \<and>
   sent_header Map.empty
     (ServeHTTP ex_lib ex_cfg ex_globals ex_service (ex_request ''GET'' ''/api''))
     ''Content-Type'' = None"
  by (simp add: ServeHTTP_def ex_service_def ex_request_def TrimPrefix_def HasPrefix_def)

text \<open>
  C10. In the terminal branches of the dispatcher that are not redirects (the 404 of a
  missing static asset, reached when the resolver has returned; a controller's
  processing error; a controller's response with a code that is not a redirect), the
  trace has a \<open>WriteHeader\<close> and a setting of \<open>Content-Type\<close>, and the first
  \<open>WriteHeader\<close> comes strictly before the first setting of \<open>Content-Type\<close>.
\<close>

theorem WriteHeader_before_Content_Type:
  assumes "redirects s (TrimPrefix (Path r) ''/'') = None"
    and "(routerMap s (TrimPrefix (Path r) ''/'') \<in> {None, Some None} \<and>
          staticFileExists lib cfg g (TrimPrefix (Path r) ''/'') = Inr False \<and>
          \<not> isl (GetErrorPageContent lib cfg g \<lparr>ResponseCode = 404, PData = NilValue\<rparr>)) \<or>
         (\<exists>route code redirectUrl contentType b pe.
            routerMap s (TrimPrefix (Path r) ''/'') = Some (Some route) \<and>
            route r = Inr (code, redirectUrl, contentType, b, pe) \<and>
            (pe \<noteq> None \<or> code \<notin> {301, 302, 303, 307, 308}))"
  shows "\<exists>i j. first_index is_WriteHeader (ServeHTTP lib cfg g s r) = Some i \<and>
               first_index sets_Content_Type (ServeHTTP lib cfg g s r) = Some j \<and> i < j"
  using assms
  by (auto simp add: ServeHTTP_def split: option.splits prod.splits sum.splits)

theorem WriteHeader_before_Content_Type_witness:
  "first_index is_WriteHeader
     (ServeHTTP ex_lib ex_cfg ex_globals ex_service (ex_request ''GET'' ''/page'')) = Some 2 \<and>
   first_index sets_Content_Type
     (ServeHTTP ex_lib ex_cfg ex_globals ex_service (ex_request ''GET'' ''/page'')) = Some 3 \<and>
   first_index is_WriteHeader
     (ServeHTTP ex_lib ex_cfg ex_globals ex_service (ex_request ''GET'' ''/missing.png'')) = Some 2 \<and>
   first_index sets_Content_Type
     (ServeHTTP ex_lib ex_cfg ex_globals ex_service (ex_request ''GET'' ''/missing.png'')) = Some 3"
  using WriteHeader_before_Content_Type [of ex_service "ex_request ''GET'' ''/page''" ex_lib ex_cfg ex_globals]
    WriteHeader_before_Content_Type [of ex_service "ex_request ''GET'' ''/missing.png''" ex_lib ex_cfg ex_globals]
  by (simp add: ServeHTTP_def ex_service_def ex_request_def ex_globals_def ex_cfg_def ex_lib_def
      TrimPrefix_def HasPrefix_def staticFileExists_def Sub_def ValidPath_def http_FS_Open_def
      GetErrorPageContent_def CreateService_ErrorPages_def default_page_def ReadFile_def)

section \<open>Properties of the render contract\<close>

text \<open>
  C6, as stated, fails: \<open>Render\<close> does not recover a panic of the template engine. A
  model whose template root is nil, as \<open>requestHandler\<close> builds it when the configured
  templates directory is \<open>templates/\<close> (\<open>fs.Sub\<close> returns nil and an error that is
  discarded), makes \<open>ParseFS\<close> open the template in a nil file system: \<open>Render\<close> panics
  with the nil dereference and returns nothing.
\<close>

theorem Render_nil_root_panics:
  "Render ex_lib (ex_model ''templates/'' ''about.gohtml'') False NilValue = Inl nil_dereference"
  by (simp add: Render_def ex_model_def ex_lib_def Sub_def ValidPath_def)

text \<open>
  C6, amended. \<open>Render\<close> returns \<open>(0, "", "", nil, ProcessingError{ResponseCode: 500})\<close>
  when the compilation or the execution of the template returns an error. When both
  succeed it returns the rendered bytes with no error, with code 200 unless the model
  carries a response code other than 0, which is then returned, and with content type
  \<open>text/html\<close> unless the model carries a content type, which is then returned.
  \<open>Render\<close> panics exactly when the compilation or the execution panics, with that
  panic.
\<close>

theorem Render_contract:
  "(ParseFS lib (Template m) [(''isset'', IsSet)] (TemplatesDirectory m)
      (Template m # Includes m) = Fails err \<or>
    ParseFS lib (Template m) [(''isset'', IsSet)] (TemplatesDirectory m)
      (Template m # Includes m) = Gives t \<and> Execute lib t (Ptr (Interface d)) = Fails err \<longrightarrow>
      Render lib m debug d =
        Inr (0, [], [], None, Some \<lparr>ResponseCode = 500, PData = NilValue\<rparr>)) \<and>
   (ParseFS lib (Template m) [(''isset'', IsSet)] (TemplatesDirectory m)
      (Template m # Includes m) = Gives t \<and> Execute lib t (Ptr (Interface d)) = Gives buf \<longrightarrow>
      Render lib m debug d =
        Inr (if m_ResponseCode m = 0 then 200 else m_ResponseCode m, [],
             if ContentType m = [] then ''text/html'' else ContentType m,
             Some (Bytes buf), None)) \<and>
   (Render lib m debug d = Inl p \<longleftrightarrow>
      ParseFS lib (Template m) [(''isset'', IsSet)] (TemplatesDirectory m)
        (Template m # Includes m) = Panics p \<or>
      (\<exists>t'. ParseFS lib (Template m) [(''isset'', IsSet)] (TemplatesDirectory m)
              (Template m # Includes m) = Gives t' \<and>
            Execute lib t' (Ptr (Interface d)) = Panics p))"
  by (auto simp add: Render_def Let_def split: outcome.splits)

theorem Render_contract_witness:
  "Render ex_lib (ex_model ''templates'' ''missing.gohtml'') False NilValue =
     Inr (0, [], [], None, Some \<lparr>ResponseCode = 500, PData = NilValue\<rparr>) \<and>
   Render ex_lib (ex_model ''templates'' ''broken.gohtml'') False NilValue =
     Inr (0, [], [], None, Some \<lparr>ResponseCode = 500, PData = NilValue\<rparr>) \<and>
   Render ex_lib (ex_model ''templates'' ''about.gohtml'') False NilValue =
     Inr (200, [], ''text/html'', Some (Some ''<h1>About</h1>''), None) \<and>
   Render ex_lib ((ex_model ''templates'' ''about.gohtml'')
                    \<lparr>m_ResponseCode := 201, ContentType := ''text/plain''\<rparr>) False NilValue =
     Inr (201, [], ''text/plain'', Some (Some ''<h1>About</h1>''), None)"
  using Render_contract [where lib = ex_lib and m = "ex_model ''templates'' ''missing.gohtml''"
      and err = "''template: pattern matches no files''" and d = NilValue and debug = False]
    Render_contract [where lib = ex_lib and m = "ex_model ''templates'' ''broken.gohtml''"
      and err = "''template: execution failed''" and t = "''{{fail}}''" and d = NilValue
      and debug = False]
    Render_contract [where lib = ex_lib and m = "ex_model ''templates'' ''about.gohtml''"
      and t = "''<h1>About</h1>''" and buf = "''<h1>About</h1>''" and d = NilValue
      and debug = False]
    Render_contract [where lib = ex_lib
      and m = "(ex_model ''templates'' ''about.gohtml'')
                 \<lparr>m_ResponseCode := 201, ContentType := ''text/plain''\<rparr>"
      and t = "''<h1>About</h1>''" and buf = "''<h1>About</h1>''" and d = NilValue
      and debug = False]
  by (simp add: ex_model_def ex_lib_def ex_globals_def Sub_def ValidPath_def Bytes_def)

section \<open>Properties of the middleware chain\<close>

text \<open>
  C7. The first thing the tracing wrapper does, for every request, is to set the
  response header \<open>X-Request-Id\<close> to the value of the inbound header or, when the
  request carries none, to the id it generates. For a request with method \<open>OPTIONS\<close> or
  \<open>HEAD\<close> or with path \<open>/healthz\<close>, \<open>/ready\<close> or \<open>/metrics\<close> that is all it does: the rest
  of the trace is the inner handler's, with no span of the wrapper's own.
\<close>

theorem Tracing_request_id:
  "(\<exists>rest. Tracing lib nextRequestID next r =
      HeaderSet ''X-Request-Id''
        (if Header_Get (Header r) ''X-Request-Id'' = [] then nextRequestID ()
         else Header_Get (Header r) ''X-Request-Id'') # rest) \<and>
   (Method r = ''OPTIONS'' \<or> Method r = ''HEAD'' \<or> Path r = ''/healthz'' \<or>
    Path r = ''/ready'' \<or> Path r = ''/metrics'' \<longrightarrow>
    Tracing lib nextRequestID next r =
      HeaderSet ''X-Request-Id''
        (if Header_Get (Header r) ''X-Request-Id'' = [] then nextRequestID ()
         else Header_Get (Header r) ''X-Request-Id'') # next r)"
  by (auto simp add: Tracing_def Let_def)

theorem Tracing_request_id_witness:
  "Tracing ex_lib (\<lambda>_. ''17'') (\<lambda>r. [WriteHeader 200]) (ex_request ''OPTIONS'' ''/about'') =
     [HeaderSet ''X-Request-Id'' ''17'', WriteHeader 200] \<and>
   Tracing ex_lib (\<lambda>_. ''17'') (\<lambda>r. [WriteHeader 200])
     ((ex_request ''GET'' ''/healthz'')\<lparr>Header := [''X-Request-Id'' \<mapsto> [''abc'']]\<rparr>) =
     [HeaderSet ''X-Request-Id'' ''abc'', WriteHeader 200]"
  using Tracing_request_id [of ex_lib "\<lambda>_. ''17''" "\<lambda>r. [WriteHeader 200]" "ex_request ''OPTIONS'' ''/about''"]
    Tracing_request_id [of ex_lib "\<lambda>_. ''17''" "\<lambda>r. [WriteHeader 200]"
      "(ex_request ''GET'' ''/healthz'')\<lparr>Header := [''X-Request-Id'' \<mapsto> [''abc'']]\<rparr>"]
  by (simp add: ex_request_def Header_Get_def)

text \<open>
  On the path that opens a span, the \<open>otelhttp\<close> handler runs the inner handler on the
  request with the correlation id in its context.
\<close>

lemma Tracing_traced:
  assumes "Method r \<noteq> ''OPTIONS''" and "Method r \<noteq> ''HEAD''"
    and "Path r \<noteq> ''/healthz''" and "Path r \<noteq> ''/ready''" and "Path r \<noteq> ''/metrics''"
  shows "\<exists>rid. Tracing lib nextRequestID next r =
           HeaderSet ''X-Request-Id'' rid #
           NewHandler lib next (Method r @ '' '' @ Path r)
             (r\<lparr>Context := (Context r)(requestIDKey \<mapsto> rid)\<rparr>)"
  using assms by (simp add: Tracing_def Let_def)

text \<open>
  The status the access-log wrapper records is 200 until \<open>WriteHeader\<close> is called, and
  then the code of the last call.
\<close>

lemma lrw_statusCode_snoc:
  "statusCode (foldl lrw_call lrw (evs @ [WriteHeader c])) = c"
  by simp

lemma lrw_statusCode_default:
  "\<not> list_ex is_WriteHeader evs \<Longrightarrow> statusCode (foldl lrw_call lrw evs) = statusCode lrw"
proof (induction evs arbitrary: lrw)
  case Nil
  then show ?case by simp
next
  case (Cons e evs)
  then show ?case
    by (cases e) (auto split: option.splits)
qed

text \<open>
  C8. The correlation id is not in the context of every request that the access-log
  wrapper sees: the tracing wrapper hands the request with the id in its context to the
  inner handler only on the path that opens a span. A \<open>HEAD\<close> request to \<open>/page\<close> with
  \<open>X-Request-Id: abc\<close> gets \<open>abc\<close> echoed in the response header, and its access-log
  record carries the request id \<open>unknown\<close>.
\<close>

theorem Tracing_Logging_unknown:
  "Tracing ex_lib (\<lambda>_. ''17'') (Logging (ServeHTTP ex_lib ex_cfg ex_globals ex_service))
     ((ex_request ''HEAD'' ''/page'')\<lparr>Header := [''X-Request-Id'' \<mapsto> [''abc'']]\<rparr>) =
     [HeaderSet ''X-Request-Id'' ''abc'', SpanStart ''/beta'', Handle ''page'', WriteHeader 200,
      HeaderSet ''Content-Type'' ''text/plain'', Write (Some ''hello''),
      AccessLog ''10.0.0.1'' ''unknown'' ''HEAD'' 200 ''/page'' 5 [],
      GaugeSet 200 ''HEAD'' ''/page'', SummaryObserve 200 ''HEAD'' ''/page'']"
  by (simp add: Tracing_def Logging_def ServeHTTP_def ex_request_def ex_service_def
      Header_Get_def TrimPrefix_def HasPrefix_def requestIDKey_def LastIndexByte_def
      NewLoggingResponseWriter_def Let_def)

text \<open>
  C9. The size the access-log wrapper records is the length of the last body passed to
  \<open>Write\<close>, not the number of bytes written over the request: an inner handler that
  writes \<open>ab\<close> and then \<open>c\<close> has written 3 bytes, and the record carries size 1.
\<close>

theorem Logging_size_last_write:
  "Logging (\<lambda>r. [WriteHeader 200, Write (Some ''ab''), Write (Some ''c'')])
     (ex_request ''GET'' ''/big'') =
     [WriteHeader 200, Write (Some ''ab''), Write (Some ''c''),
      AccessLog ''10.0.0.1'' ''unknown'' ''GET'' 200 ''/big'' 1 [],
      GaugeSet 200 ''GET'' ''/big'', SummaryObserve 200 ''GET'' ''/big''] \<and>
   bytes_written [WriteHeader 200, Write (Some ''ab''), Write (Some ''c'')] = 3"
  by (simp add: Logging_def ex_request_def Header_Get_def requestIDKey_def LastIndexByte_def
      NewLoggingResponseWriter_def Let_def bytes_written_def)

section \<open>Properties of the error-page resolver\<close>

text \<open>
  The loop over the configured error pages leaves, for a status code, the override with
  a file name when some configured key denotes the code and every key that denotes it
  names that file, whatever the order of the iteration.
\<close>

lemma errorPages_loop_overrides:
  assumes "errorPages_loop entries eps = Inr eps'"
    and "\<forall>(key', n') \<in> set entries. Atoi key' = Some k \<longrightarrow> n' = n"
    and "(\<exists>d. eps k = Some d \<and> overrides n d) \<or>
         (\<exists>key. (key, n) \<in> set entries \<and> Atoi key = Some k)"
  shows "\<exists>d. eps' k = Some d \<and> overrides n d"
  using assms
proof (induction entries arbitrary: eps)
  case Nil
  then show ?case by simp
next
  case (Cons e entries)
  obtain key' n' where e: "e = (key', n')" by (cases e)
  from Cons.prems(1) e obtain c where c: "Atoi key' = Some c"
    by (cases "Atoi key'") auto
  define eps1 where "eps1 =
    (case eps c of
       Some m \<Rightarrow> eps(c \<mapsto> m\<lparr>IsDefault := False, Name := n',
                                IsTemplate := HasSuffix n' ''.gohtml''\<rparr>)
     | None \<Rightarrow> eps(c \<mapsto> \<lparr>Name = n', IsDefault = False,
                            IsTemplate = HasSuffix n' ''.gohtml'', Data = NilValue\<rparr>))"
  from Cons.prems(1) e c have loop: "errorPages_loop entries eps1 = Inr eps'"
    by (auto simp: eps1_def split: option.splits)
  from Cons.prems(2) have rest: "\<forall>(key', n') \<in> set entries. Atoi key' = Some k \<longrightarrow> n' = n"
    by simp
  have "(\<exists>d. eps1 k = Some d \<and> overrides n d) \<or>
        (\<exists>key. (key, n) \<in> set entries \<and> Atoi key = Some k)"
  proof (cases "c = k")
    case True
    with Cons.prems(2) e c have "n' = n" by simp
    with True have "\<exists>d. eps1 k = Some d \<and> overrides n d"
      by (auto simp: eps1_def overrides_def split: option.splits)
    then show ?thesis ..
  next
    case False
    with Cons.prems(3) e c show ?thesis
      by (auto simp: eps1_def split: option.splits)
  qed
  with Cons.IH [OF loop rest] show ?case .
qed

text \<open>
  The branches of resolution: no content and no error without an entry, the template
  render for a template, the read in the bundled default pages for a default that is
  not a template, and otherwise the read of a file of the entry's name.
\<close>

lemma GetErrorPageContent_absent:
  "ErrorPages g (ResponseCode pe) = None \<Longrightarrow> GetErrorPageContent lib cfg g pe = Inr (None, None)"
  by (simp add: GetErrorPageContent_def)

lemma GetErrorPageContent_template:
  assumes "ErrorPages g (ResponseCode pe) = Some d" and "IsTemplate d"
  shows "GetErrorPageContent lib cfg g pe = render_error_template lib cfg g (Name d) pe"
  using assms
  by (simp add: GetErrorPageContent_def render_error_template_def)

lemma GetErrorPageContent_default:
  assumes "ErrorPages g (ResponseCode pe) = Some d" and "\<not> IsTemplate d" and "IsDefault d"
  shows "GetErrorPageContent lib cfg g pe =
           Inr (ReadFile (errorPageFiles g) (''errorPages/'' @ Name d))"
  using assms by (simp add: GetErrorPageContent_def)

lemma GetErrorPageContent_file:
  assumes "ErrorPages g (ResponseCode pe) = Some d" and "\<not> IsTemplate d" and "\<not> IsDefault d"
  shows "\<exists>f. GetErrorPageContent lib cfg g pe = Inr (ReadFile f (Name d))"
  using assms by (auto simp add: GetErrorPageContent_def)

text \<open>
  C4, as stated, fails when two configured keys denote the same status code: with the
  keys \<open>404\<close> and \<open>+404\<close> naming \<open>a.html\<close> and \<open>b.html\<close>, startup succeeds and the entry
  for 404 names \<open>b.html\<close>, so the override of 404 with \<open>a.html\<close> is not in the table.
\<close>

theorem errorPages_override_counterexample:
  "(''404'', ''a.html'') \<in> set (http_errorPages ex_cfg_dup) \<and> Atoi ''404'' = Some 404 \<and>
   \<not> isl (requestHandler ex_lib ex_cfg_dup ex_globals id) \<and>
   map_option Name
     (ErrorPages (snd (projr (requestHandler ex_lib ex_cfg_dup ex_globals id))) 404) =
     Some ''b.html''"
  by (simp add: ex_cfg_dup_def requestHandler_def ex_cfg_def Atoi_def Let_def ex_globals_def
      CreateService_ErrorPages_def)

text \<open>
  C4, amended. For a configured override of status code \<open>k\<close> with file name \<open>n\<close> such that
  every configured key denoting \<open>k\<close> names \<open>n\<close>: after a startup that succeeds, the
  error-page table has for \<open>k\<close> an entry with \<open>IsDefault\<close> false, \<open>Name\<close> \<open>n\<close> and
  \<open>IsTemplate\<close> true iff \<open>n\<close> ends in \<open>.gohtml\<close>, and resolution of an error with code \<open>k\<close>
  takes the branch these flags select: the template render of \<open>n\<close> when \<open>n\<close> ends in
  \<open>.gohtml\<close>, and otherwise the read of a file named \<open>n\<close>. Which root that file is read
  from is not part of this statement.
\<close>

theorem errorPages_override:
  assumes "requestHandler lib cfg g customise = Inr (s, g')"
    and "(key, n) \<in> set (http_errorPages cfg)"
    and "Atoi key = Some k"
    and "\<forall>(key', n') \<in> set (http_errorPages cfg). Atoi key' = Some k \<longrightarrow> n' = n"
    and "ResponseCode pe = k"
  shows "(\<exists>d. ErrorPages g' k = Some d \<and> Name d = n \<and> \<not> IsDefault d \<and>
              (IsTemplate d \<longleftrightarrow> HasSuffix n ''.gohtml'')) \<and>
         (HasSuffix n ''.gohtml'' \<longrightarrow>
            GetErrorPageContent lib cfg g' pe = render_error_template lib cfg g' n pe) \<and>
         (\<not> HasSuffix n ''.gohtml'' \<longrightarrow>
            (\<exists>f. GetErrorPageContent lib cfg g' pe = Inr (ReadFile f n)))"
proof -
  from assms(1) obtain g1 eps where
    loop: "errorPages_loop (http_errorPages cfg) (ErrorPages g1) = Inr eps"
    and g': "g' = g1\<lparr>ErrorPages := eps\<rparr>"
    by (auto simp: requestHandler_def Let_def split: sum.splits)
  from assms(2,3) have "\<exists>key. (key, n) \<in> set (http_errorPages cfg) \<and> Atoi key = Some k"
    by blast
  then have "\<exists>d. eps k = Some d \<and> overrides n d"
    using errorPages_loop_overrides [OF loop assms(4)] by blast
  then obtain d where d: "ErrorPages g' (ResponseCode pe) = Some d" "overrides n d"
    using g' assms(5) by auto
  from d have flags: "Name d = n" "\<not> IsDefault d" "IsTemplate d \<longleftrightarrow> HasSuffix n ''.gohtml''"
    by (simp_all add: overrides_def)
  have "HasSuffix n ''.gohtml'' \<longrightarrow>
          GetErrorPageContent lib cfg g' pe = render_error_template lib cfg g' n pe"
    using GetErrorPageContent_template [OF d(1), where lib = lib and cfg = cfg] flags by simp
  moreover have "\<not> HasSuffix n ''.gohtml'' \<longrightarrow>
          (\<exists>f. GetErrorPageContent lib cfg g' pe = Inr (ReadFile f n))"
    using GetErrorPageContent_file [OF d(1), where lib = lib and cfg = cfg] flags by simp
  ultimately show ?thesis
    using d(1) flags assms(5) by auto
qed

theorem errorPages_override_witness:
  "map_option (\<lambda>d. (Name d, IsDefault d, IsTemplate d))
     (ErrorPages (snd (projr (requestHandler ex_lib ex_cfg ex_globals id))) 400) =
     Some (''400.gohtml'', False, True) \<and>
   GetErrorPageContent ex_lib ex_cfg (snd (projr (requestHandler ex_lib ex_cfg ex_globals id)))
     \<lparr>ResponseCode = 400, PData = NilValue\<rparr> = Inr (Some ''<h1>Bad request</h1>'', None)"
proof -
  define s where "s = fst (projr (requestHandler ex_lib ex_cfg ex_globals id))"
  define g' where "g' = snd (projr (requestHandler ex_lib ex_cfg ex_globals id))"
  have started: "requestHandler ex_lib ex_cfg ex_globals id = Inr (s, g')"
    unfolding s_def g'_def
    by (simp add: requestHandler_def ex_cfg_def Atoi_def Let_def split: option.splits)
  have entry: "(''400'', ''400.gohtml'') \<in> set (http_errorPages ex_cfg)"
    by (simp add: ex_cfg_def)
  have code: "Atoi ''400'' = Some 400"
    by (simp add: Atoi_def)
  have only: "\<forall>(key', n') \<in> set (http_errorPages ex_cfg).
                Atoi key' = Some 400 \<longrightarrow> n' = ''400.gohtml''"
    by (simp add: ex_cfg_def)
  have tmpl: "templates g' = templates ex_globals"
    unfolding g'_def
    by (simp add: requestHandler_def ex_cfg_def Atoi_def Let_def split: option.splits)
  have rendered: "render_error_template ex_lib ex_cfg g' ''400.gohtml''
                    \<lparr>ResponseCode = 400, PData = NilValue\<rparr> =
                  Inr (Some ''<h1>Bad request</h1>'', None)"
    by (simp add: render_error_template_def tmpl ex_cfg_def ex_lib_def ex_globals_def Sub_def
        ValidPath_def Bytes_def)
  have suffix: "HasSuffix ''400.gohtml'' ''.gohtml''"
    by (simp add: HasSuffix_def)
  from errorPages_override [OF started entry code only, of "\<lparr>ResponseCode = 400, PData = NilValue\<rparr>"]
    rendered suffix
  show ?thesis
    unfolding g'_def [symmetric] by auto
qed

text \<open>
  C3. For an override that is not a template the resolver reads the named file from the
  embedded static bundle at its root, not from the static asset root the configuration
  selects. With the static content on disk in the directory \<open>static\<close>, which holds
  \<open>custom404.html\<close>, and the override of 404 with \<open>custom404.html\<close>: startup succeeds,
  the static asset root has the file, and resolution of code 404 returns no content and
  the error of a file that does not exist.
\<close>

theorem GetErrorPageContent_static_root:
  "\<not> isl (requestHandler ex_lib ex_cfg_disk ex_globals id) \<and>
   staticFileExists ex_lib ex_cfg_disk
     (snd (projr (requestHandler ex_lib ex_cfg_disk ex_globals id))) ''custom404.html'' =
     Inr True \<and>
   GetErrorPageContent ex_lib ex_cfg_disk
     (snd (projr (requestHandler ex_lib ex_cfg_disk ex_globals id)))
     \<lparr>ResponseCode = 404, PData = NilValue\<rparr> =
     Inr (None, Some ''open custom404.html: file does not exist'')"
  by (simp add: ex_cfg_disk_def requestHandler_def ex_cfg_def Atoi_def Let_def ex_globals_def
      CreateService_ErrorPages_def staticFileExists_def ex_lib_def http_FS_Open_def
      TrimPrefix_def HasPrefix_def
      GetErrorPageContent_def HasSuffix_def ReadFile_def default_page_def)

end
